theory Spec2Isabelle
  imports Main
begin

section \<open>JavaScript values read from a device\<close>

text \<open>
  The attributes of a device object (\<open>type\<close>, \<open>powerSource\<close>, \<open>manufId\<close>, \<open>modelId\<close>)
  are untyped in the source. They are modelled as JavaScript values, with the
  truthiness test, the short-circuit operators \<open>&&\<close> and \<open>||\<close> (which return one of
  their operands) and strict (in)equality. Numbers are integers here (a manufacturer
  id is one); NaN, the only value not strictly equal to itself, is not represented.
\<close>

datatype jsval = JUndefined | JNull | JBool bool | JNum int | JStr string

fun truthy :: "jsval \<Rightarrow> bool" where
  "truthy JUndefined = False"
| "truthy JNull = False"
| "truthy (JBool b) = b"
| "truthy (JNum n) = (n \<noteq> 0)"
| "truthy (JStr s) = (s \<noteq> [])"

definition js_and :: "jsval \<Rightarrow> jsval \<Rightarrow> jsval" where
  "js_and a b = (if truthy a then b else a)"

definition js_or :: "jsval \<Rightarrow> jsval \<Rightarrow> jsval" where
  "js_or a b = (if truthy a then a else b)"

definition strict_eq :: "jsval \<Rightarrow> jsval \<Rightarrow> jsval" where
  "strict_eq a b = JBool (a = b)"

definition strict_neq :: "jsval \<Rightarrow> jsval \<Rightarrow> jsval" where
  "strict_neq a b = JBool (a \<noteq> b)"

record device =
  ieeeAddr :: string
  type :: jsval
  powerSource :: jsval
  manufId :: jsval
  modelId :: jsval

text \<open>
  The string a template literal \<^verbatim>\<open>`${v}`\<close> puts in place of a value. A number
  prints in decimal (integers only, as above).
\<close>

fun digits :: "nat \<Rightarrow> string" where
  "digits n = (if n < 10 then [char_of (48 + n)] else digits (n div 10) @ [char_of (48 + n mod 10)])"

fun toString :: "jsval \<Rightarrow> string" where
  "toString JUndefined = ''undefined''"
| "toString JNull = ''null''"
| "toString (JBool b) = (if b then ''true'' else ''false'')"
| "toString (JNum n) = (if n < 0 then ''-'' @ digits (nat (- n)) else digits (nat n))"
| "toString (JStr s) = s"

section \<open>isPingable\<close>

text \<open>
  \<^verbatim>\<open>return ((device.type === 'Router' && device.powerSource && device.powerSource !== 'Battery') ||
          (device.manufId === 4448 && device.modelId === 'E11-G13'));\<close>
\<close>

definition isPingable :: "device \<Rightarrow> jsval" where
  "isPingable device =
     js_or (js_and (js_and (strict_eq (type device) (JStr ''Router'')) (powerSource device))
                   (strict_neq (powerSource device) (JStr ''Battery'')))
           (js_and (strict_eq (manufId device) (JNum 4448))
                   (strict_eq (modelId device) (JStr ''E11-G13'')))"


section \<open>Collaborators\<close>

text \<open>
  The handler reaches the rest of the program through \<open>this.zigbee\<close>, \<open>this.mqtt\<close>,
  \<open>this.state\<close>, \<open>settings\<close> and \<open>utils\<close>, none of which is defined in deviceAvailability.js. Each
  call it makes is a field of the environment \<open>env\<close>, so every statement below holds for
  whatever these collaborators return.
\<close>

text \<open>
  \<open>settings.getDevice\<close> returns the entry of the address in the configuration, or a
  falsy value when there is none (\<open>None\<close>). The source reads one property of an entry,
  \<open>friendly_name\<close>; like every property read in JavaScript it may yield any value,
  \<open>undefined\<close> when the entry has no such key.
\<close>

record device_settings =
  friendly_name :: jsval

datatype fault = TypeError | BusError

datatype completion = Returned | Threw fault

record message =
  topic :: string
  payload :: string
  retain :: bool
  qos :: int

record env =
  zigbee_getDevices :: "device list"
  zigbee_getAllClients :: "device list"
  zigbee_getDevice :: "string \<Rightarrow> device option"
  shepherd_find :: "string \<Rightarrow> int \<Rightarrow> jsval option"
  state_get :: "string \<Rightarrow> jsval"
  settings_getDevice :: "string \<Rightarrow> device_settings option"
  settings_availability_timeout :: int
  utils_secondsToMilliseconds :: "int \<Rightarrow> int"
  mqtt_publish :: "message \<Rightarrow> fault option"

text \<open>
  \<open>shepherd_find c a 1\<close> is \<open>this.zigbee.shepherd.find(a, 1)\<close>: \<open>None\<close> when nothing is
  found, otherwise the \<open>status\<close> of the device found. \<open>mqtt_publish c m\<close> is what the call
  \<open>this.mqtt.publish(...)\<close> does to the caller: \<open>None\<close> when it returns, \<open>Some f\<close> when
  it throws \<open>f\<close>. The source has no \<open>try\<close>, so a throw ends the running callback at
  that statement and leaves the state as it is there.
\<close>

section \<open>State and effects\<close>

datatype log_entry =
    SkippingPing string
  | FailedToPing string
  | SuccesfullyPinged string
  | DeviceInformation string "device_settings option"
  | FirstInfo string jsval
  | SecondInfo string jsval

datatype effect =
    Debug log_entry
  | BusPublish message
  | Ping string
  | QueuePush string
  | QueueStop
  | QueueCallback
  | SetTimeout nat string int
  | ClearTimeout nat

record timer =
  t_id :: nat
  t_addr :: string
  t_delay :: int

record queue =
  jobs :: "string list"
  inflight :: "string option"
  concurrency :: nat
  autostart :: bool
  halted :: bool

text \<open>
  The first four fields are the instance (\<open>this.availability_timeout\<close>, \<open>this.timers\<close>,
  \<open>this.pending\<close>, \<open>this.queue\<close>). The others are the world it acts on: the timers armed
  in the JavaScript runtime and not yet fired or cleared, the next timer handle, and the
  calls made on collaborators, in order. A job in the queue is the closure created by
  \<open>handleInterval\<close>; it is identified by the address it captured.
\<close>

record handler =
  availability_timeout :: int
  timers :: "string \<Rightarrow> nat option"
  pending :: "string list"
  queue :: queue
  live :: "timer list"
  next_id :: nat
  effects :: "effect list"

definition emit :: "effect \<Rightarrow> handler \<Rightarrow> handler" where
  "emit e s = s\<lparr>effects := effects s @ [e]\<rparr>"

definition logger_debug :: "log_entry \<Rightarrow> handler \<Rightarrow> handler" where
  "logger_debug l s = emit (Debug l) s"

fun publishes :: "effect list \<Rightarrow> message list" where
  "publishes [] = []"
| "publishes (BusPublish m # es) = m # publishes es"
| "publishes (e # es) = publishes es"

fun pings :: "effect list \<Rightarrow> string list" where
  "pings [] = []"
| "pings (Ping a # es) = a # pings es"
| "pings (e # es) = pings es"

fun armed :: "effect list \<Rightarrow> string list" where
  "armed [] = []"
| "armed (SetTimeout i a ms # es) = a # armed es"
| "armed (e # es) = armed es"

fun is_debug :: "effect \<Rightarrow> bool" where
  "is_debug (Debug l) = True"
| "is_debug e = False"

definition observable :: "effect list \<Rightarrow> effect list" where
  "observable es = filter (\<lambda>e. \<not> is_debug e) es"

section \<open>Array operations\<close>

fun indexOf :: "'a list \<Rightarrow> 'a \<Rightarrow> int" where
  "indexOf [] x = -1"
| "indexOf (y # ys) x =
     (if y = x then 0 else (let i = indexOf ys x in if i = -1 then -1 else i + 1))"

definition splice1 :: "'a list \<Rightarrow> nat \<Rightarrow> 'a list" where
  "splice1 xs i = take i xs @ drop (Suc i) xs"

section \<open>Timers of the runtime\<close>

text \<open>
  \<open>setTimeout\<close> and \<open>clearTimeout\<close> of Node.js. A handle is a Timeout object, which is
  always truthy; the number only identifies it. Clearing a handle that has fired or was
  cleared before does nothing to the live timers.
\<close>

definition clearTimeout :: "nat \<Rightarrow> handler \<Rightarrow> handler" where
  "clearTimeout h s = emit (ClearTimeout h) (s\<lparr>live := filter (\<lambda>t. t_id t \<noteq> h) (live s)\<rparr>)"

definition setTimeout :: "string \<Rightarrow> int \<Rightarrow> handler \<Rightarrow> nat \<times> handler" where
  "setTimeout a ms s =
     (next_id s,
      emit (SetTimeout (next_id s) a ms)
        (s\<lparr>live := live s @ [\<lparr>t_id = next_id s, t_addr = a, t_delay = ms\<rparr>],
           next_id := Suc (next_id s)\<rparr>))"

section \<open>The queue\<close>

text \<open>
  \<^verbatim>\<open>(queueCallback) => { this.zigbee.ping(ieeeAddr, (error) => { ... }); }\<close>
  Running a job sends the ping; its callback comes later, as an event. The parameter
  \<open>ieeeAddr\<close> of the methods is written \<open>addr\<close>, since \<open>ieeeAddr\<close> names the field of a
  device.
\<close>

definition job :: "string \<Rightarrow> handler \<Rightarrow> handler" where
  "job addr s = emit (Ping addr) s"

text \<open>
  Modelled from the spec: the class \<open>Queue\<close> of the package \<open>queue\<close>, which is not among
  the sources. Section 4.2 of the spec: jobs run with concurrency exactly 1, in submission
  order, auto-started (the queue accepts jobs at any time and begins draining at once),
  until \<open>stop()\<close> halts it; no new job is scheduled to run after \<open>stop()\<close> returns; the
  job in flight may complete. The constructor sets \<open>concurrency = 1\<close> and
  \<open>autostart = true\<close>; one slot for the job in flight covers that configuration.
\<close>

definition queue_start :: "handler \<Rightarrow> handler" where
  "queue_start s =
     (let q = queue s in
      if halted q \<or> concurrency q \<le> (case inflight q of None \<Rightarrow> 0 | Some r \<Rightarrow> 1) then s
      else (case jobs q of
              [] \<Rightarrow> s
            | j # js \<Rightarrow> job j (s\<lparr>queue := q\<lparr>jobs := js, inflight := Some j\<rparr>\<rparr>)))"

definition queue_push :: "string \<Rightarrow> handler \<Rightarrow> handler" where
  "queue_push j s =
     (let s1 = emit (QueuePush j) (s\<lparr>queue := (queue s)\<lparr>jobs := jobs (queue s) @ [j]\<rparr>\<rparr>)
      in if autostart (queue s1) then queue_start s1 else s1)"

definition queueCallback :: "handler \<Rightarrow> handler" where
  "queueCallback s =
     queue_start (emit QueueCallback (s\<lparr>queue := (queue s)\<lparr>inflight := None\<rparr>\<rparr>))"

definition queue_stop :: "handler \<Rightarrow> handler" where
  "queue_stop s = emit QueueStop (s\<lparr>queue := (queue s)\<lparr>halted := True\<rparr>\<rparr>)"

section \<open>DeviceAvailabilityHandler\<close>

definition constructor :: "env \<Rightarrow> handler" where
  "constructor c =
     \<lparr>availability_timeout = settings_availability_timeout c,
      timers = Map.empty,
      pending = [],
      queue = \<lparr>jobs = [], inflight = None, concurrency = 1, autostart = True, halted = False\<rparr>,
      live = [], next_id = 0, effects = []\<rparr>"

definition getAllPingableDevices :: "env \<Rightarrow> device list" where
  "getAllPingableDevices c = filter (\<lambda>d. truthy (isPingable d)) (zigbee_getAllClients c)"

definition setTimer :: "env \<Rightarrow> string \<Rightarrow> handler \<Rightarrow> handler" where
  "setTimer c addr s =
     (let s1 = (case timers s addr of Some h \<Rightarrow> clearTimeout h s | None \<Rightarrow> s);
          (h, s2) = setTimeout addr
                      (utils_secondsToMilliseconds c (availability_timeout s1)) s1
      in s2\<lparr>timers := (timers s2)(addr \<mapsto> h)\<rparr>)"

definition bus_publish :: "env \<Rightarrow> message \<Rightarrow> handler \<Rightarrow> completion \<times> handler" where
  "bus_publish c m s =
     ((case mqtt_publish c m of None \<Rightarrow> Returned | Some f \<Rightarrow> Threw f), emit (BusPublish m) s)"

definition publishAvailability ::
    "env \<Rightarrow> string \<Rightarrow> bool \<Rightarrow> handler \<Rightarrow> completion \<times> handler" where
  "publishAvailability c addr available s =
     (let deviceSettings = settings_getDevice c addr;
          name = (case deviceSettings of Some ds \<Rightarrow> friendly_name ds | None \<Rightarrow> JStr addr);
          topic = toString name @ ''/availability'';
          payload = (if available then ''online'' else ''offline'');
          s1 = logger_debug (DeviceInformation addr deviceSettings) s;
          s2 = (if truthy (js_and name (strict_eq name (JStr ''big_lamp''))) then
                  (let s1a = logger_debug (FirstInfo addr (state_get c addr)) s1
                   in case shepherd_find c addr 1 of
                        Some status \<Rightarrow> logger_debug (SecondInfo addr status) s1a
                      | None \<Rightarrow> s1a)
                else s1)
      in bus_publish c \<lparr>topic = topic, payload = payload, retain = True, qos = 0\<rparr> s2)"

fun forEach ::
    "('a \<Rightarrow> handler \<Rightarrow> completion \<times> handler) \<Rightarrow> 'a list \<Rightarrow> handler \<Rightarrow> completion \<times> handler"
where
  "forEach f [] s = (Returned, s)"
| "forEach f (x # xs) s =
     (case f x s of
        (Returned, s') \<Rightarrow> forEach f xs s'
      | (Threw e, s') \<Rightarrow> (Threw e, s'))"

definition onMQTTConnected :: "env \<Rightarrow> handler \<Rightarrow> completion \<times> handler" where
  "onMQTTConnected c s =
     (case forEach (\<lambda>device. publishAvailability c (ieeeAddr device) True)
             (filter (\<lambda>d. truthy (strict_neq (type d) (JStr ''Coordinator'')))
                (zigbee_getDevices c)) s of
        (Threw e, s1) \<Rightarrow> (Threw e, s1)
      | (Returned, s1) \<Rightarrow>
          (Returned, fold (\<lambda>device. setTimer c (ieeeAddr device)) (getAllPingableDevices c) s1))"

definition handleInterval :: "env \<Rightarrow> string \<Rightarrow> handler \<Rightarrow> handler" where
  "handleInterval c addr s =
     (if addr \<in> set (pending s) then logger_debug (SkippingPing addr) s
      else queue_push addr (s\<lparr>pending := pending s @ [addr]\<rparr>))"

text \<open>
  The callback handed to \<open>this.zigbee.ping\<close> (lines 60 to 77): \<open>error\<close> is \<open>None\<close> when
  the ping succeeded.
\<close>

definition pingCallback ::
    "env \<Rightarrow> string \<Rightarrow> string option \<Rightarrow> handler \<Rightarrow> completion \<times> handler" where
  "pingCallback c addr error s =
     (let s1 = (case error of
                  Some e \<Rightarrow> logger_debug (FailedToPing addr) s
                | None \<Rightarrow> logger_debug (SuccesfullyPinged addr) s)
      in case publishAvailability c addr (error = None) s1 of
           (Threw f, s2) \<Rightarrow> (Threw f, s2)
         | (Returned, s2) \<Rightarrow>
             (let index = indexOf (pending s2) addr;
                  s3 = (if index \<noteq> -1 then s2\<lparr>pending := splice1 (pending s2) (nat index)\<rparr>
                        else s2);
                  s4 = setTimer c addr s3
              in (Returned, queueCallback s4)))"

definition stop :: "env \<Rightarrow> handler \<Rightarrow> completion \<times> handler" where
  "stop c s =
     forEach (\<lambda>device. publishAvailability c (ieeeAddr device) False)
       (filter (\<lambda>d. truthy (strict_neq (type d) (JStr ''Coordinator''))) (zigbee_getDevices c))
       (queue_stop s)"

text \<open>
  \<^verbatim>\<open>if (device && this.isPingable(this.zigbee.getDevice(device.ieeeAddr)))\<close>
  The argument \<open>device\<close> is \<open>None\<close> when falsy. When the registry does not know the
  address, \<open>isPingable\<close> reads \<open>type\<close> of an absent value, which throws.
\<close>

definition onZigbeeMessage :: "env \<Rightarrow> device option \<Rightarrow> handler \<Rightarrow> completion \<times> handler" where
  "onZigbeeMessage c device s =
     (case device of
        None \<Rightarrow> (Returned, s)
      | Some d \<Rightarrow>
          (case zigbee_getDevice c (ieeeAddr d) of
             None \<Rightarrow> (Threw TypeError, s)
           | Some r \<Rightarrow>
               if truthy (isPingable r) then (Returned, setTimer c (ieeeAddr d) s)
               else (Returned, s)))"

section \<open>Events\<close>

text \<open>
  What can happen to a handler: the two lifecycle calls, a message from a device, a live
  timer of the runtime firing (the runtime drops it and runs its callback
  \<open>() => this.handleInterval(ieeeAddr)\<close>), and the ping in flight calling back. An event
  that cannot happen in a state (a timer that is not live, no ping in flight) leaves it.
\<close>

datatype event =
    MQTTConnected
  | ZigbeeMessage "device option"
  | TimerFires nat
  | PingDone "string option"
  | Stop

fun handle :: "env \<Rightarrow> event \<Rightarrow> handler \<Rightarrow> completion \<times> handler" where
  "handle c MQTTConnected s = onMQTTConnected c s"
| "handle c (ZigbeeMessage d) s = onZigbeeMessage c d s"
| "handle c (TimerFires i) s =
     (case find (\<lambda>t. t_id t = i) (live s) of
        None \<Rightarrow> (Returned, s)
      | Some t \<Rightarrow>
          (Returned, handleInterval c (t_addr t) (s\<lparr>live := filter (\<lambda>t. t_id t \<noteq> i) (live s)\<rparr>)))"
| "handle c (PingDone error) s =
     (case inflight (queue s) of
        None \<Rightarrow> (Returned, s)
      | Some a \<Rightarrow> pingCallback c a error s)"
| "handle c Stop s = stop c s"


fun run :: "(env \<times> event) list \<Rightarrow> handler \<Rightarrow> handler" where
  "run [] s = s"
| "run ((c, ev) # evs) s = run evs (snd (handle c ev s))"

text \<open>
  The states a handler built from the settings of \<open>c0\<close> can be in. Between events the
  collaborators may answer differently (devices join, settings are edited); only the
  conversion function of \<open>utils\<close>, which is code, stays the same.
\<close>

inductive reachable :: "env \<Rightarrow> handler \<Rightarrow> bool" for c0 :: env where
  init: "reachable c0 (constructor c0)"
| step: "reachable c0 s \<Longrightarrow>
         utils_secondsToMilliseconds c = utils_secondsToMilliseconds c0 \<Longrightarrow>
         reachable c0 (snd (handle c ev s))"

section \<open>Statement helpers\<close>

text \<open>
  The name a publish resolves for an address, the message the spec expects for it, and
  the debug lines \<open>publishAvailability\<close> writes before it publishes.
\<close>

definition resolved_name :: "env \<Rightarrow> string \<Rightarrow> jsval" where
  "resolved_name c a =
     (case settings_getDevice c a of Some ds \<Rightarrow> friendly_name ds | None \<Rightarrow> JStr a)"

definition expected_message :: "env \<Rightarrow> string \<Rightarrow> bool \<Rightarrow> message" where
  "expected_message c a available =
     \<lparr>topic = toString (resolved_name c a) @ ''/availability'',
      payload = (if available then ''online'' else ''offline''),
      retain = True, qos = 0\<rparr>"

definition publish_trace :: "env \<Rightarrow> string \<Rightarrow> effect list" where
  "publish_trace c a =
     Debug (DeviceInformation a (settings_getDevice c a)) #
     (if resolved_name c a = JStr ''big_lamp'' then
        Debug (FirstInfo a (state_get c a)) #
        (case shepherd_find c a 1 of Some st \<Rightarrow> [Debug (SecondInfo a st)] | None \<Rightarrow> [])
      else [])"

definition bus_returns :: "env \<Rightarrow> bool" where
  "bus_returns c \<longleftrightarrow> (\<forall>m. mqtt_publish c m = None)"

definition same_core :: "handler \<Rightarrow> handler \<Rightarrow> bool" where
  "same_core s s' \<longleftrightarrow>
     availability_timeout s' = availability_timeout s \<and> timers s' = timers s \<and>
     pending s' = pending s \<and> queue s' = queue s \<and> live s' = live s \<and>
     next_id s' = next_id s"

definition non_coordinators :: "env \<Rightarrow> device list" where
  "non_coordinators c = filter (\<lambda>d. type d \<noteq> JStr ''Coordinator'') (zigbee_getDevices c)"

definition timers_ok :: "env \<Rightarrow> handler \<Rightarrow> bool" where
  "timers_ok c0 s \<longleftrightarrow>
     distinct (map t_id (live s)) \<and>
     (\<forall>t \<in> set (live s).
        timers s (t_addr t) = Some (t_id t) \<and> t_id t < next_id s \<and>
        t_delay t = utils_secondsToMilliseconds c0 (settings_availability_timeout c0)) \<and>
     (\<forall>a h. timers s a = Some h \<longrightarrow> h < next_id s) \<and>
     (\<forall>a b h. timers s a = Some h \<longrightarrow> timers s b = Some h \<longrightarrow> a = b) \<and>
     availability_timeout s = settings_availability_timeout c0"

definition handler_inv :: "env \<Rightarrow> handler \<Rightarrow> bool" where
  "handler_inv c0 s \<longleftrightarrow> distinct (pending s) \<and> timers_ok c0 s"

definition completion_trace :: "env \<Rightarrow> string \<Rightarrow> string option \<Rightarrow> effect list" where
  "completion_trace c a error =
     Debug (case error of Some e \<Rightarrow> FailedToPing a | None \<Rightarrow> SuccesfullyPinged a)
     # publish_trace c a @ [BusPublish (expected_message c a (error = None))]"

section \<open>Example inputs\<close>

text \<open>
  The scenario of the spec: a coordinator A, a mains-powered router B and a
  battery-powered router C; B has a friendly name, the others have no settings entry.
\<close>

definition dev_A :: device where
  "dev_A = \<lparr>ieeeAddr = ''0x0a'', type = JStr ''Coordinator'', powerSource = JUndefined,
            manufId = JNum 0, modelId = JUndefined\<rparr>"

definition dev_B :: device where
  "dev_B = \<lparr>ieeeAddr = ''0x0b'', type = JStr ''Router'', powerSource = JStr ''Mains (single phase)'',
            manufId = JNum 4476, modelId = JStr ''TRADFRI bulb E27''\<rparr>"

definition dev_C :: device where
  "dev_C = \<lparr>ieeeAddr = ''0x0c'', type = JStr ''Router'', powerSource = JStr ''Battery'',
            manufId = JNum 4151, modelId = JStr ''lumi.sensor_magnet''\<rparr>"

definition demo_env :: env where
  "demo_env =
     \<lparr>zigbee_getDevices = [dev_A, dev_B, dev_C],
      zigbee_getAllClients = [dev_B, dev_C],
      zigbee_getDevice = (\<lambda>a. find (\<lambda>d. ieeeAddr d = a) [dev_A, dev_B, dev_C]),
      shepherd_find = (\<lambda>a ep. None),
      state_get = (\<lambda>a. JUndefined),
      settings_getDevice = (\<lambda>a. if a = ''0x0b'' then Some \<lparr>friendly_name = JStr ''lamp''\<rparr> else None),
      settings_availability_timeout = 10,
      utils_secondsToMilliseconds = (\<lambda>n. n * 1000),
      mqtt_publish = (\<lambda>m. None)\<rparr>"

definition faulty_env :: env where
  "faulty_env = demo_env\<lparr>mqtt_publish := (\<lambda>m. Some BusError)\<rparr>"

text \<open>The handler after start-up, once B's timer has fired and B's ping is in flight.\<close>

definition probing_B :: handler where
  "probing_B = run [(demo_env, MQTTConnected), (demo_env, TimerFires 0)] (constructor demo_env)"

text \<open>The same, after a message from B has armed a new timer for B while the ping is in flight.\<close>

definition rearmed_B :: handler where
  "rearmed_B = run [(demo_env, ZigbeeMessage (Some dev_B))] probing_B"

text \<open>Events after a stop, and an environment in which every device is named 'big_lamp'.\<close>

definition after_stop :: "(env \<times> event) list" where
  "after_stop = [(demo_env, PingDone None), (demo_env, ZigbeeMessage (Some dev_B)),
                 (demo_env, TimerFires 2), (demo_env, MQTTConnected)]"

definition big_lamp_env :: env where
  "big_lamp_env =
     demo_env\<lparr>settings_getDevice := (\<lambda>a. Some \<lparr>friendly_name = JStr ''big_lamp''\<rparr>),
              shepherd_find := (\<lambda>a ep. Some (JStr ''online''))\<rparr>"

text \<open>A router on the override of \<open>isPingable\<close> that reports no power source.\<close>

definition override_router :: device where
  "override_router =
     \<lparr>ieeeAddr = ''0x000b57fffe000001'', type = JStr ''Router'', powerSource = JUndefined,
      manufId = JNum 4448, modelId = JStr ''E11-G13''\<rparr>"

text \<open>A router, not on the override, that reports the power source 'Unknown'.\<close>

definition unknown_router :: device where
  "unknown_router =
     \<lparr>ieeeAddr = ''0x000b57fffe000002'', type = JStr ''Router'', powerSource = JStr ''Unknown'',
      manufId = JNum 4476, modelId = JStr ''TRADFRI bulb E27''\<rparr>"

text \<open>
  Settings in which every device has an entry without a \<open>friendly_name\<close> key, and
  settings in which the friendly name of every entry is the empty string.
\<close>

definition unnamed_env :: env where
  "unnamed_env = demo_env\<lparr>settings_getDevice := (\<lambda>a. Some \<lparr>friendly_name = JUndefined\<rparr>)\<rparr>"

definition empty_name_env :: env where
  "empty_name_env = demo_env\<lparr>settings_getDevice := (\<lambda>a. Some \<lparr>friendly_name = JStr []\<rparr>)\<rparr>"


text \<open>The handler after start-up, with B's timer live and nothing pending.\<close>

definition started :: handler where
  "started = run [(demo_env, MQTTConnected)] (constructor demo_env)"


section \<open>Facts about the model\<close>

lemma publishes_append: "publishes (xs @ ys) = publishes xs @ publishes ys"
  by (induction xs rule: publishes.induct) simp_all

lemma pings_append: "pings (xs @ ys) = pings xs @ pings ys"
  by (induction xs rule: pings.induct) simp_all

lemma observable_append: "observable (xs @ ys) = observable xs @ observable ys"
  by (simp add: observable_def)

lemma indexOf_ge: "- 1 \<le> indexOf xs x"
  by (induction xs) (auto simp: Let_def)

lemma indexOf_absent: "indexOf xs x = - 1 \<longleftrightarrow> x \<notin> set xs"
proof (induction xs)
  case Nil
  show ?case by simp
next
  case (Cons y ys)
  have "- 1 \<le> indexOf ys x" by (rule indexOf_ge)
  with Cons show ?case by (auto simp: Let_def)
qed

lemma splice1_indexOf: "x \<in> set xs \<Longrightarrow> splice1 xs (nat (indexOf xs x)) = remove1 x xs"
proof (induction xs)
  case Nil
  then show ?case by simp
next
  case (Cons y ys)
  show ?case
  proof (cases "y = x")
    case True
    then show ?thesis by (simp add: splice1_def)
  next
    case False
    with Cons.prems have mem: "x \<in> set ys" by simp
    then have ne: "indexOf ys x \<noteq> - 1" by (simp add: indexOf_absent)
    have ge: "- 1 \<le> indexOf ys x" by (rule indexOf_ge)
    from ne ge have "nat (indexOf ys x + 1) = Suc (nat (indexOf ys x))" by linarith
    with False ne Cons.IH [OF mem] show ?thesis
      by (simp add: splice1_def Let_def)
  qed
qed

lemma publishAvailability_eq:
  "publishAvailability c a av s =
     ((case mqtt_publish c (expected_message c a av) of None \<Rightarrow> Returned | Some f \<Rightarrow> Threw f),
      s\<lparr>effects := effects s @ publish_trace c a @ [BusPublish (expected_message c a av)]\<rparr>)"
  by (auto simp: publishAvailability_def bus_publish_def expected_message_def publish_trace_def resolved_name_def
      js_and_def strict_eq_def
      logger_debug_def emit_def Let_def split: option.splits)

lemma publish_trace_debug: "observable (publish_trace c a) = []"
  by (simp add: publish_trace_def observable_def split: option.splits)

lemma publish_trace_publishes: "publishes (publish_trace c a) = []"
  by (simp add: publish_trace_def split: option.splits)

lemma publish_trace_pings: "pings (publish_trace c a) = []"
  by (simp add: publish_trace_def split: option.splits)

lemma setTimer_live:
  "live (setTimer c a s) =
     filter (\<lambda>t. timers s a \<noteq> Some (t_id t)) (live s)
     @ [\<lparr>t_id = next_id s, t_addr = a,
          t_delay = utils_secondsToMilliseconds c (availability_timeout s)\<rparr>]"
  by (auto simp: setTimer_def clearTimeout_def setTimeout_def emit_def Let_def
      split: option.splits intro: filter_cong)

lemma setTimer_fields:
  "timers (setTimer c a s) = (timers s)(a \<mapsto> next_id s)"
  "next_id (setTimer c a s) = Suc (next_id s)"
  "pending (setTimer c a s) = pending s"
  "queue (setTimer c a s) = queue s"
  "availability_timeout (setTimer c a s) = availability_timeout s"
  by (simp_all add: setTimer_def clearTimeout_def setTimeout_def emit_def Let_def
      split: option.splits)

lemma setTimer_effects:
  "effects (setTimer c a s) =
     effects s @ (case timers s a of Some h \<Rightarrow> [ClearTimeout h] | None \<Rightarrow> [])
     @ [SetTimeout (next_id s) a (utils_secondsToMilliseconds c (availability_timeout s))]"
  by (simp add: setTimer_def clearTimeout_def setTimeout_def emit_def Let_def
      split: option.splits)

lemma timers_ok_distinct: "timers_ok c0 s \<Longrightarrow> distinct (map t_id (live s))"
  by (simp add: timers_ok_def)

lemma timers_ok_live:
  "timers_ok c0 s \<Longrightarrow> t \<in> set (live s) \<Longrightarrow>
   timers s (t_addr t) = Some (t_id t) \<and> t_id t < next_id s \<and>
   t_delay t = utils_secondsToMilliseconds c0 (settings_availability_timeout c0)"
  by (simp add: timers_ok_def)

lemma timers_ok_bound: "timers_ok c0 s \<Longrightarrow> timers s x = Some h \<Longrightarrow> h < next_id s"
  unfolding timers_ok_def by blast

lemma timers_ok_inj:
  "timers_ok c0 s \<Longrightarrow> timers s x = Some h \<Longrightarrow> timers s y = Some h \<Longrightarrow> x = y"
  unfolding timers_ok_def by blast

lemma timers_ok_timeout:
  "timers_ok c0 s \<Longrightarrow> availability_timeout s = settings_availability_timeout c0"
  by (simp add: timers_ok_def)

lemma setTimer_timers_ok:
  assumes "timers_ok c0 s"
    and "utils_secondsToMilliseconds c = utils_secondsToMilliseconds c0"
  shows "timers_ok c0 (setTimer c a s)"
proof -
  note d = timers_ok_distinct [OF assms(1)]
  note l = timers_ok_live [OF assms(1)]
  note b = timers_ok_bound [OF assms(1)]
  note i = timers_ok_inj [OF assms(1)]
  note t = timers_ok_timeout [OF assms(1)]
  let ?keep = "filter (\<lambda>t. timers s a \<noteq> Some (t_id t)) (live s)"
  have fresh: "next_id s \<notin> t_id ` set ?keep" using l by fastforce
  have 1: "distinct (map t_id (live (setTimer c a s)))"
    using d fresh by (simp add: setTimer_live distinct_map_filter)
  have keep: "\<And>t. t \<in> set ?keep \<Longrightarrow> t_addr t \<noteq> a" using l by auto
  have 2: "\<forall>t \<in> set (live (setTimer c a s)).
             timers (setTimer c a s) (t_addr t) = Some (t_id t) \<and>
             t_id t < next_id (setTimer c a s) \<and>
             t_delay t = utils_secondsToMilliseconds c0 (settings_availability_timeout c0)"
  proof
    fix u assume "u \<in> set (live (setTimer c a s))"
    then consider "u \<in> set ?keep"
      | "u = \<lparr>t_id = next_id s, t_addr = a,
               t_delay = utils_secondsToMilliseconds c (availability_timeout s)\<rparr>"
      by (auto simp: setTimer_live)
    then show "timers (setTimer c a s) (t_addr u) = Some (t_id u) \<and>
             t_id u < next_id (setTimer c a s) \<and>
             t_delay u = utils_secondsToMilliseconds c0 (settings_availability_timeout c0)"
    proof cases
      case 1
      with keep [OF 1] l [of u] show ?thesis by (simp add: setTimer_fields less_Suc_eq)
    next
      case 2
      with assms(2) t show ?thesis by (simp add: setTimer_fields)
    qed
  qed
  have 3: "\<forall>x h. timers (setTimer c a s) x = Some h \<longrightarrow> h < next_id (setTimer c a s)"
    using b by (auto simp: setTimer_fields less_Suc_eq)
  have 4: "\<forall>x y h. timers (setTimer c a s) x = Some h \<longrightarrow>
             timers (setTimer c a s) y = Some h \<longrightarrow> x = y"
  proof (intro allI impI)
    fix x y h
    assume x: "timers (setTimer c a s) x = Some h" and y: "timers (setTimer c a s) y = Some h"
    show "x = y"
    proof (cases "x = a")
      case True
      with x have h: "h = next_id s" by (simp add: setTimer_fields)
      show ?thesis
      proof (cases "y = a")
        case True
        with \<open>x = a\<close> show ?thesis by simp
      next
        case False
        with y h have "timers s y = Some (next_id s)" by (simp add: setTimer_fields)
        from b [OF this] show ?thesis by simp
      qed
    next
      case False
      with x have xs: "timers s x = Some h" by (simp add: setTimer_fields)
      show ?thesis
      proof (cases "y = a")
        case True
        with y have "h = next_id s" by (simp add: setTimer_fields)
        with b [OF xs] show ?thesis by simp
      next
        case False
        with y have "timers s y = Some h" by (simp add: setTimer_fields)
        with xs show ?thesis by (rule i)
      qed
    qed
  qed
  have 5: "availability_timeout (setTimer c a s) = settings_availability_timeout c0"
    using t by (simp add: setTimer_fields)
  show ?thesis unfolding timers_ok_def by (intro conjI 1 2 3 4 5)
qed

lemma timers_ok_cong:
  "live s' = live s \<Longrightarrow> timers s' = timers s \<Longrightarrow> next_id s' = next_id s \<Longrightarrow>
   availability_timeout s' = availability_timeout s \<Longrightarrow> timers_ok c0 s' = timers_ok c0 s"
  by (simp add: timers_ok_def)

lemma timers_ok_fired:
  "timers_ok c0 s \<Longrightarrow> timers_ok c0 (s\<lparr>live := filter P (live s)\<rparr>)"
  by (simp add: timers_ok_def distinct_map_filter)

lemma queue_start_fields:
  "pending (queue_start s) = pending s"
  "timers (queue_start s) = timers s"
  "live (queue_start s) = live s"
  "next_id (queue_start s) = next_id s"
  "availability_timeout (queue_start s) = availability_timeout s"
  "halted (queue (queue_start s)) = halted (queue s)"
  "publishes (effects (queue_start s)) = publishes (effects s)"
  by (simp_all add: queue_start_def job_def emit_def Let_def publishes_append split: list.splits)

lemma queue_start_halted: "halted (queue s) \<Longrightarrow> queue_start s = s"
  by (simp add: queue_start_def)

lemma queue_push_fields:
  "pending (queue_push j s) = pending s"
  "timers (queue_push j s) = timers s"
  "live (queue_push j s) = live s"
  "next_id (queue_push j s) = next_id s"
  "availability_timeout (queue_push j s) = availability_timeout s"
  "halted (queue (queue_push j s)) = halted (queue s)"
  "publishes (effects (queue_push j s)) = publishes (effects s)"
  by (simp_all add: queue_push_def queue_start_fields emit_def Let_def publishes_append)

lemma queue_push_halted:
  "halted (queue s) \<Longrightarrow> pings (effects (queue_push j s)) = pings (effects s)"
  by (simp add: queue_push_def queue_start_halted emit_def Let_def pings_append)

lemma queueCallback_fields:
  "pending (queueCallback s) = pending s"
  "timers (queueCallback s) = timers s"
  "live (queueCallback s) = live s"
  "next_id (queueCallback s) = next_id s"
  "availability_timeout (queueCallback s) = availability_timeout s"
  "halted (queue (queueCallback s)) = halted (queue s)"
  "publishes (effects (queueCallback s)) = publishes (effects s)"
  by (simp_all add: queueCallback_def queue_start_fields emit_def publishes_append)

lemma queueCallback_halted:
  "halted (queue s) \<Longrightarrow> pings (effects (queueCallback s)) = pings (effects s)"
  by (simp add: queueCallback_def queue_start_halted emit_def pings_append)

lemma handleInterval_fields:
  "timers (handleInterval c a s) = timers s"
  "live (handleInterval c a s) = live s"
  "next_id (handleInterval c a s) = next_id s"
  "availability_timeout (handleInterval c a s) = availability_timeout s"
  "halted (queue (handleInterval c a s)) = halted (queue s)"
  "publishes (effects (handleInterval c a s)) = publishes (effects s)"
  by (simp_all add: handleInterval_def queue_push_fields logger_debug_def emit_def
      publishes_append)

lemma handleInterval_pending:
  "pending (handleInterval c a s) = (if a \<in> set (pending s) then pending s else pending s @ [a])"
  by (simp add: handleInterval_def queue_push_fields logger_debug_def emit_def)

lemma handleInterval_halted:
  "halted (queue s) \<Longrightarrow> pings (effects (handleInterval c a s)) = pings (effects s)"
  by (simp add: handleInterval_def queue_push_halted logger_debug_def emit_def pings_append)

lemma handleInterval_distinct:
  "distinct (pending s) \<Longrightarrow> distinct (pending (handleInterval c a s))"
  by (simp add: handleInterval_pending)

lemma forEach_publish:
  "\<exists>es. snd (forEach (\<lambda>d. publishAvailability c (ieeeAddr d) av) ds s)
           = s\<lparr>effects := effects s @ es\<rparr> \<and> pings es = []"
proof (induction ds arbitrary: s)
  case Nil
  have "s = s\<lparr>effects := effects s @ []\<rparr>" by simp
  then show ?case by (metis forEach.simps(1) snd_conv pings.simps(1))
next
  case (Cons d ds)
  let ?es = "publish_trace c (ieeeAddr d) @ [BusPublish (expected_message c (ieeeAddr d) av)]"
  let ?s1 = "s\<lparr>effects := effects s @ ?es\<rparr>"
  have p: "pings ?es = []" by (simp add: pings_append publish_trace_pings)
  show ?case
  proof (cases "mqtt_publish c (expected_message c (ieeeAddr d) av)")
    case None
    from Cons.IH [of ?s1] obtain es where
      es: "snd (forEach (\<lambda>d. publishAvailability c (ieeeAddr d) av) ds ?s1)
             = ?s1\<lparr>effects := effects ?s1 @ es\<rparr>" "pings es = []" by blast
    have "snd (forEach (\<lambda>d. publishAvailability c (ieeeAddr d) av) (d # ds) s)
            = s\<lparr>effects := effects s @ (?es @ es)\<rparr>"
      using None es(1) by (simp add: publishAvailability_eq)
    moreover have "pings (?es @ es) = []" using p es(2) by (simp add: pings_append)
    ultimately show ?thesis by blast
  next
    case (Some f)
    have "snd (forEach (\<lambda>d. publishAvailability c (ieeeAddr d) av) (d # ds) s)
            = s\<lparr>effects := effects s @ ?es\<rparr>"
      using Some by (simp add: publishAvailability_eq)
    with p show ?thesis by blast
  qed
qed

lemma forEach_publish_returns:
  "bus_returns c \<Longrightarrow>
   forEach (\<lambda>d. publishAvailability c (ieeeAddr d) av) ds s =
     (Returned,
      s\<lparr>effects := effects s @
           concat (map (\<lambda>d. publish_trace c (ieeeAddr d)
                              @ [BusPublish (expected_message c (ieeeAddr d) av)]) ds)\<rparr>)"
  by (induction ds arbitrary: s) (simp_all add: publishAvailability_eq bus_returns_def)

lemma fold_setTimer_fields:
  "pending (fold (\<lambda>d. setTimer c (ieeeAddr d)) ds s) = pending s"
  "queue (fold (\<lambda>d. setTimer c (ieeeAddr d)) ds s) = queue s"
  "publishes (effects (fold (\<lambda>d. setTimer c (ieeeAddr d)) ds s)) = publishes (effects s)"
  "pings (effects (fold (\<lambda>d. setTimer c (ieeeAddr d)) ds s)) = pings (effects s)"
  by (induction ds arbitrary: s)
     (simp_all add: setTimer_fields setTimer_effects publishes_append pings_append
      split: option.splits)

lemma fold_setTimer_timers_ok:
  "timers_ok c0 s \<Longrightarrow> utils_secondsToMilliseconds c = utils_secondsToMilliseconds c0 \<Longrightarrow>
   timers_ok c0 (fold (\<lambda>d. setTimer c (ieeeAddr d)) ds s)"
  by (induction ds arbitrary: s) (simp_all add: setTimer_timers_ok)

lemma pingCallback_eq:
  "pingCallback c a error s =
     (case mqtt_publish c (expected_message c a (error = None)) of
        Some f \<Rightarrow> (Threw f, s\<lparr>effects := effects s @ completion_trace c a error\<rparr>)
      | None \<Rightarrow>
          (Returned,
           queueCallback (setTimer c a
             (s\<lparr>effects := effects s @ completion_trace c a error,
                pending := remove1 a (pending s)\<rparr>))))"
proof -
  have rm: "a \<notin> set (pending s) \<Longrightarrow> remove1 a (pending s) = pending s"
    by (simp add: remove1_idem)
  show ?thesis
    by (cases error)
       (auto simp: pingCallback_def publishAvailability_eq completion_trace_def logger_debug_def
          emit_def Let_def indexOf_absent splice1_indexOf rm split: option.splits)
qed

lemma inv_effects:
  "handler_inv c0 (s\<lparr>effects := es\<rparr>) = handler_inv c0 s"
  by (simp add: handler_inv_def timers_ok_def)

lemma inv_init: "handler_inv c0 (constructor c0)"
  by (simp add: handler_inv_def timers_ok_def constructor_def)

lemma inv_setTimer:
  "handler_inv c0 s \<Longrightarrow> utils_secondsToMilliseconds c = utils_secondsToMilliseconds c0 \<Longrightarrow>
   handler_inv c0 (setTimer c a s)"
  by (simp add: handler_inv_def setTimer_timers_ok setTimer_fields)

lemma inv_queueCallback: "handler_inv c0 (queueCallback s) = handler_inv c0 s"
  by (simp add: handler_inv_def queueCallback_fields timers_ok_cong [of "queueCallback s" s])

lemma inv_handleInterval: "handler_inv c0 s \<Longrightarrow> handler_inv c0 (handleInterval c a s)"
  by (simp add: handler_inv_def handleInterval_distinct handleInterval_fields
      timers_ok_cong [of "handleInterval c a s" s])

lemma inv_pingCallback:
  assumes "handler_inv c0 s"
    and "utils_secondsToMilliseconds c = utils_secondsToMilliseconds c0"
  shows "handler_inv c0 (snd (pingCallback c a error s))"
proof (cases "mqtt_publish c (expected_message c a (error = None))")
  case None
  have "handler_inv c0 (s\<lparr>effects := effects s @ completion_trace c a error,
                          pending := remove1 a (pending s)\<rparr>)"
    using assms(1) by (simp add: handler_inv_def timers_ok_def)
  then show ?thesis
    using None assms(2) by (simp add: pingCallback_eq inv_queueCallback inv_setTimer)
next
  case (Some f)
  then show ?thesis using assms(1) by (simp add: pingCallback_eq inv_effects)
qed

lemma inv_forEach_publish:
  "handler_inv c0 (snd (forEach (\<lambda>d. publishAvailability c (ieeeAddr d) av) ds s))
     = handler_inv c0 s"
proof -
  obtain es where "snd (forEach (\<lambda>d. publishAvailability c (ieeeAddr d) av) ds s)
                     = s\<lparr>effects := effects s @ es\<rparr>"
    using forEach_publish by blast
  then show ?thesis by (simp add: inv_effects)
qed

lemma inv_fold_setTimer:
  "handler_inv c0 s \<Longrightarrow> utils_secondsToMilliseconds c = utils_secondsToMilliseconds c0 \<Longrightarrow>
   handler_inv c0 (fold (\<lambda>d. setTimer c (ieeeAddr d)) ds s)"
  by (simp add: handler_inv_def fold_setTimer_fields fold_setTimer_timers_ok)

lemma inv_onMQTTConnected:
  assumes "handler_inv c0 s"
    and "utils_secondsToMilliseconds c = utils_secondsToMilliseconds c0"
  shows "handler_inv c0 (snd (onMQTTConnected c s))"
proof -
  let ?r = "forEach (\<lambda>device. publishAvailability c (ieeeAddr device) True)
              (filter (\<lambda>d. truthy (strict_neq (type d) (JStr ''Coordinator'')))
                 (zigbee_getDevices c)) s"
  have i: "handler_inv c0 (snd ?r)" using assms(1) by (simp add: inv_forEach_publish)
  show ?thesis
  proof (cases ?r)
    case (Pair k s1)
    with i have "handler_inv c0 s1" by simp
    with Pair assms(2) show ?thesis
      by (cases k) (simp_all add: onMQTTConnected_def inv_fold_setTimer)
  qed
qed

lemma inv_queue_stop: "handler_inv c0 (queue_stop s) = handler_inv c0 s"
  by (simp add: handler_inv_def timers_ok_def queue_stop_def emit_def)

lemma inv_stop: "handler_inv c0 s \<Longrightarrow> handler_inv c0 (snd (stop c s))"
  by (simp add: stop_def inv_forEach_publish inv_queue_stop)

lemma inv_onZigbeeMessage:
  "handler_inv c0 s \<Longrightarrow> utils_secondsToMilliseconds c = utils_secondsToMilliseconds c0 \<Longrightarrow>
   handler_inv c0 (snd (onZigbeeMessage c d s))"
  by (simp add: onZigbeeMessage_def inv_setTimer split: option.splits)

lemma inv_fired:
  "handler_inv c0 s \<Longrightarrow> handler_inv c0 (s\<lparr>live := filter P (live s)\<rparr>)"
  using timers_ok_fired [of c0 s P] by (simp add: handler_inv_def)

lemma inv_handle:
  assumes "handler_inv c0 s"
    and "utils_secondsToMilliseconds c = utils_secondsToMilliseconds c0"
  shows "handler_inv c0 (snd (handle c ev s))"
proof (cases ev)
  case MQTTConnected
  with assms show ?thesis by (simp add: inv_onMQTTConnected)
next
  case (ZigbeeMessage d)
  with assms show ?thesis by (simp add: inv_onZigbeeMessage)
next
  case (TimerFires i)
  with assms(1) show ?thesis
    by (simp add: inv_handleInterval inv_fired split: option.splits)
next
  case (PingDone e)
  with assms show ?thesis by (simp add: inv_pingCallback split: option.splits)
next
  case Stop
  with assms(1) show ?thesis by (simp add: inv_stop)
qed

lemma reachable_inv: "reachable c0 s \<Longrightarrow> handler_inv c0 s"
  by (induction rule: reachable.induct) (simp_all add: inv_init inv_handle)

lemma reachable_run:
  "reachable c0 s \<Longrightarrow>
   list_all (\<lambda>(c, ev). utils_secondsToMilliseconds c = utils_secondsToMilliseconds c0) evs \<Longrightarrow>
   reachable c0 (run evs s)"
proof (induction evs arbitrary: s)
  case Nil
  then show ?case by simp
next
  case (Cons x evs)
  obtain c ev where x: "x = (c, ev)" by (cases x)
  with Cons.prems have "reachable c0 (snd (handle c ev s))"
    by (simp add: reachable.step)
  with Cons.IH Cons.prems x show ?case by simp
qed

lemma probing_B_reachable: "reachable demo_env probing_B"
  unfolding probing_B_def
  by (rule reachable_run [OF reachable.init]) simp

lemma rearmed_B_reachable: "reachable demo_env rearmed_B"
  unfolding rearmed_B_def
  by (rule reachable_run [OF probing_B_reachable]) simp

lemma probing_B_pending: "pending probing_B = [''0x0b'']"
  by code_simp

lemma rearmed_B_pending: "pending rearmed_B = [''0x0b'']"
  by code_simp

lemma rearmed_B_live:
  "live rearmed_B = [\<lparr>t_id = 1, t_addr = ''0x0b'', t_delay = 10000\<rparr>]"
  by code_simp

lemma at_most_one:
  "distinct (map f xs) \<Longrightarrow> \<forall>x \<in> set xs. f x = v \<Longrightarrow> length xs \<le> Suc 0"
proof (cases xs)
  case Nil
  then show ?thesis by simp
next
  case (Cons x ys)
  assume d: "distinct (map f xs)" and e: "\<forall>x \<in> set xs. f x = v"
  show ?thesis
  proof (cases ys)
    case Nil
    with Cons show ?thesis by simp
  next
    case (Cons y zs)
    with \<open>xs = x # ys\<close> d e show ?thesis by auto
  qed
qed

lemma timers_ok_one_per_address:
  assumes "timers_ok c0 s"
  shows "length (filter (\<lambda>t. t_addr t = a) (live s)) \<le> Suc 0"
proof (cases "timers s a")
  case None
  with timers_ok_live [OF assms] have "filter (\<lambda>t. t_addr t = a) (live s) = []"
    by (auto simp: filter_empty_conv)
  then show ?thesis by simp
next
  case (Some h)
  have "distinct (map t_id (filter (\<lambda>t. t_addr t = a) (live s)))"
    using timers_ok_distinct [OF assms] by (simp add: distinct_map_filter)
  moreover have "\<forall>t \<in> set (filter (\<lambda>t. t_addr t = a) (live s)). t_id t = h"
    using timers_ok_live [OF assms] Some by auto
  ultimately show ?thesis by (rule at_most_one)
qed

lemma setTimer_rearms:
  assumes "timers_ok c0 s"
  shows "filter (\<lambda>t. t_addr t = a) (live (setTimer c a s)) =
           [\<lparr>t_id = next_id s, t_addr = a,
             t_delay = utils_secondsToMilliseconds c (availability_timeout s)\<rparr>]"
proof -
  have "filter (\<lambda>t. t_addr t = a) (filter (\<lambda>t. timers s a \<noteq> Some (t_id t)) (live s)) = []"
    using timers_ok_live [OF assms] by (auto simp: filter_empty_conv)
  then show ?thesis by (simp add: setTimer_live)
qed

lemma rearmed_B_timers: "timers rearmed_B ''0x0b'' = Some 1"
  by code_simp

lemma rearmed_B_next_id: "next_id rearmed_B = 2"
  by code_simp

lemma queue_start_count:
  "count_list (effects (queue_start s)) QueueCallback = count_list (effects s) QueueCallback"
  by (simp add: queue_start_def job_def emit_def Let_def split: list.splits)

lemma queueCallback_count:
  "count_list (effects (queueCallback s)) QueueCallback
     = Suc (count_list (effects s) QueueCallback)"
  by (simp add: queueCallback_def queue_start_count emit_def)

lemma completion_trace_count: "count_list (completion_trace c a e) QueueCallback = 0"
  by (simp add: completion_trace_def publish_trace_def split: option.splits)



lemma demo_env_publish: "mqtt_publish demo_env m = None"
  by (simp add: demo_env_def)

lemma faulty_env_publish: "mqtt_publish faulty_env m = Some BusError"
  by (simp add: faulty_env_def)



lemma armed_append: "armed (xs @ ys) = armed xs @ armed ys"
  by (induction xs rule: armed.induct) simp_all


lemma non_coordinators_filter:
  "filter (\<lambda>d. truthy (strict_neq (type d) (JStr ''Coordinator''))) (zigbee_getDevices c)
     = non_coordinators c"
  by (simp add: non_coordinators_def strict_neq_def)



lemma publish_all_observable:
  "observable (concat (map (\<lambda>d. publish_trace c (ieeeAddr d)
                                  @ [BusPublish (expected_message c (ieeeAddr d) av)]) ds))
     = map (\<lambda>d. BusPublish (expected_message c (ieeeAddr d) av)) ds"
  using publish_trace_debug [unfolded observable_def]
  by (induction ds) (simp_all add: observable_def)


lemma demo_env_bus_returns: "bus_returns demo_env"
  by (simp add: bus_returns_def demo_env_publish)

lemma completion_trace_pings: "pings (completion_trace c a e) = []"
  by (simp add: completion_trace_def pings_append publish_trace_pings)

lemma setTimer_pings: "pings (effects (setTimer c a s)) = pings (effects s)"
  by (simp add: setTimer_effects pings_append split: option.splits)

lemma halted_onMQTTConnected:
  "queue (snd (onMQTTConnected c s)) = queue s \<and>
   pings (effects (snd (onMQTTConnected c s))) = pings (effects s)"
proof -
  let ?r = "forEach (\<lambda>device. publishAvailability c (ieeeAddr device) True)
              (filter (\<lambda>d. truthy (strict_neq (type d) (JStr ''Coordinator'')))
                 (zigbee_getDevices c)) s"
  obtain es where es: "snd ?r = s\<lparr>effects := effects s @ es\<rparr>" "pings es = []"
    using forEach_publish by blast
  show ?thesis
  proof (cases ?r)
    case (Pair k s1)
    with es have "s1 = s\<lparr>effects := effects s @ es\<rparr>" by simp
    with Pair es(2) show ?thesis
      by (cases k) (simp_all add: onMQTTConnected_def fold_setTimer_fields pings_append)
  qed
qed

lemma halted_stop:
  "halted (queue (snd (stop c s))) \<and> pings (effects (snd (stop c s))) = pings (effects s) \<and>
   take (Suc (length (effects s))) (effects (snd (stop c s))) = effects s @ [QueueStop]"
proof -
  obtain es where
    "snd (stop c s) = (queue_stop s)\<lparr>effects := effects (queue_stop s) @ es\<rparr>" "pings es = []"
    unfolding stop_def using forEach_publish by blast
  then show ?thesis by (simp add: queue_stop_def emit_def pings_append)
qed

lemma halted_pingCallback:
  "halted (queue s) \<Longrightarrow>
   halted (queue (snd (pingCallback c a e s))) \<and>
   pings (effects (snd (pingCallback c a e s))) = pings (effects s)"
  by (simp add: pingCallback_eq queueCallback_fields queueCallback_halted setTimer_fields
      setTimer_pings pings_append completion_trace_pings split: option.splits)

lemma halted_handle:
  assumes "halted (queue s)"
  shows "halted (queue (snd (handle c ev s))) \<and>
         pings (effects (snd (handle c ev s))) = pings (effects s)"
proof (cases ev)
  case MQTTConnected
  with assms show ?thesis by (simp add: halted_onMQTTConnected)
next
  case (ZigbeeMessage d)
  with assms show ?thesis
    by (simp add: onZigbeeMessage_def setTimer_fields setTimer_pings split: option.splits)
next
  case (TimerFires i)
  with assms show ?thesis
    by (simp add: handleInterval_fields handleInterval_halted split: option.splits)
next
  case (PingDone e)
  with assms show ?thesis by (simp add: halted_pingCallback split: option.splits)
next
  case Stop
  then show ?thesis by (simp add: halted_stop)
qed

lemma halted_run:
  "halted (queue s) \<Longrightarrow>
   halted (queue (run evs s)) \<and> pings (effects (run evs s)) = pings (effects s)"
proof (induction evs arbitrary: s)
  case Nil
  then show ?case by simp
next
  case (Cons x evs)
  obtain c ev where x: "x = (c, ev)" by (cases x)
  from Cons.prems have h: "halted (queue (snd (handle c ev s)))"
    "pings (effects (snd (handle c ev s))) = pings (effects s)"
    using halted_handle [of s c ev] by simp_all
  from Cons.IH [OF h(1)] h(2) x show ?case by simp
qed

lemma setTimer_publishes: "publishes (effects (setTimer c a s)) = publishes (effects s)"
  by (simp add: setTimer_effects publishes_append split: option.splits)

lemma setTimer_armed: "armed (effects (setTimer c a s)) = armed (effects s) @ [a]"
  by (simp add: setTimer_effects armed_append split: option.splits)




lemma forEach_publish_throws:
  "list_all (\<lambda>d. mqtt_publish c (expected_message c (ieeeAddr d) av) = None) pre \<Longrightarrow>
   mqtt_publish c (expected_message c (ieeeAddr d) av) = Some f \<Longrightarrow>
   forEach (\<lambda>d. publishAvailability c (ieeeAddr d) av) (pre @ d # post) s =
     (Threw f,
      s\<lparr>effects := effects s @
           concat (map (\<lambda>d. publish_trace c (ieeeAddr d)
                              @ [BusPublish (expected_message c (ieeeAddr d) av)]) (pre @ [d]))\<rparr>)"
  by (induction pre arbitrary: s) (simp_all add: publishAvailability_eq)




lemma expected_message_offline:
  "expected_message c a False =
     \<lparr>topic = toString (resolved_name c a) @ ''/availability'', payload = ''offline'',
      retain = True, qos = 0\<rparr>"
  by (simp add: expected_message_def)

lemma stop_throws:
  assumes "non_coordinators c = pre @ d # post"
    and "list_all (\<lambda>d. mqtt_publish c (expected_message c (ieeeAddr d) False) = None) pre"
    and "mqtt_publish c (expected_message c (ieeeAddr d) False) = Some f"
  shows "stop c s =
           (Threw f,
            (queue_stop s)\<lparr>effects := effects (queue_stop s) @
                 concat (map (\<lambda>d. publish_trace c (ieeeAddr d)
                                    @ [BusPublish (expected_message c (ieeeAddr d) False)])
                           (pre @ [d]))\<rparr>)"
  using assms(1) forEach_publish_throws [OF assms(2,3), of post "queue_stop s"]
  by (simp add: stop_def non_coordinators_filter)

lemma stop_frame: "live (snd (stop c s)) = live s \<and> timers (snd (stop c s)) = timers s"
proof -
  obtain es where
    "snd (stop c s) = (queue_stop s)\<lparr>effects := effects (queue_stop s) @ es\<rparr>"
    unfolding stop_def using forEach_publish by blast
  then show ?thesis by (simp add: queue_stop_def emit_def)
qed

lemma push_when_halted:
  "halted (queue s) \<Longrightarrow> a \<notin> set (pending s) \<Longrightarrow>
   jobs (queue (handleInterval c a s)) = jobs (queue s) @ [a] \<and>
   pending (handleInterval c a s) = pending s @ [a] \<and>
   pings (effects (handleInterval c a s)) = pings (effects s)"
  by (simp add: handleInterval_def queue_push_def queue_start_def emit_def Let_def pings_append)

lemma stop_frame_queue:
  "pending (snd (stop c s)) = pending s \<and> jobs (queue (snd (stop c s))) = jobs (queue s) \<and>
   inflight (queue (snd (stop c s))) = inflight (queue s)"
proof -
  obtain es where
    "snd (stop c s) = (queue_stop s)\<lparr>effects := effects (queue_stop s) @ es\<rparr>"
    unfolding stop_def using forEach_publish by blast
  then show ?thesis by (simp add: queue_stop_def emit_def)
qed

lemma started_fields:
  "live started = [\<lparr>t_id = 0, t_addr = ''0x0b'', t_delay = 10000\<rparr>]"
  "pending started = []"
  "jobs (queue started) = []"
  by code_simp+

lemma faulty_non_coordinators: "non_coordinators faulty_env = [] @ dev_B # [dev_C]"
  by (simp add: non_coordinators_def faulty_env_def demo_env_def dev_A_def dev_B_def dev_C_def)

lemma faulty_message_B:
  "expected_message faulty_env (ieeeAddr dev_B) av =
     \<lparr>topic = ''lamp/availability'', payload = (if av then ''online'' else ''offline''),
      retain = True, qos = 0\<rparr>"
  by (simp add: faulty_env_def demo_env_def expected_message_def resolved_name_def dev_B_def)







section \<open>Theorems\<close>

text \<open>
  C1. In every reachable state no address occurs twice in \<open>pending\<close>. When
  \<open>handleInterval\<close> runs for an address that is in \<open>pending\<close>, it only writes a debug
  line: \<open>pending\<close> and the queue are as before and no job is pushed. The same holds for
  the timer event that runs it.
\<close>

theorem pending_no_duplicates:
  "(reachable c0 s \<longrightarrow> distinct (pending s)) \<and>
   (a \<in> set (pending s') \<longrightarrow>
      pending (handleInterval c a s') = pending s' \<and>
      queue (handleInterval c a s') = queue s' \<and>
      effects (handleInterval c a s') = effects s' @ [Debug (SkippingPing a)]) \<and>
   (find (\<lambda>t. t_id t = i) (live s') = Some t \<and> t_addr t \<in> set (pending s') \<longrightarrow>
      pending (snd (handle c (TimerFires i) s')) = pending s' \<and>
      queue (snd (handle c (TimerFires i) s')) = queue s' \<and>
      observable (effects (snd (handle c (TimerFires i) s'))) = observable (effects s'))"
proof -
  have "reachable c0 s \<longrightarrow> distinct (pending s)"
    using reachable_inv [of c0 s] by (simp add: handler_inv_def)
  moreover have "a \<in> set (pending s') \<longrightarrow>
      pending (handleInterval c a s') = pending s' \<and>
      queue (handleInterval c a s') = queue s' \<and>
      effects (handleInterval c a s') = effects s' @ [Debug (SkippingPing a)]"
    by (simp add: handleInterval_def logger_debug_def emit_def)
  moreover have "find (\<lambda>t. t_id t = i) (live s') = Some t \<and> t_addr t \<in> set (pending s') \<longrightarrow>
      pending (snd (handle c (TimerFires i) s')) = pending s' \<and>
      queue (snd (handle c (TimerFires i) s')) = queue s' \<and>
      observable (effects (snd (handle c (TimerFires i) s'))) = observable (effects s')"
    by (simp add: handleInterval_def logger_debug_def emit_def observable_def)
  ultimately show ?thesis by blast
qed

theorem pending_no_duplicates_witness:
  "reachable demo_env rearmed_B \<and> distinct (pending rearmed_B) \<and>
   ''0x0b'' \<in> set (pending rearmed_B) \<and>
   pending (handleInterval demo_env ''0x0b'' rearmed_B) = pending rearmed_B \<and>
   queue (handleInterval demo_env ''0x0b'' rearmed_B) = queue rearmed_B \<and>
   find (\<lambda>t. t_id t = 1) (live rearmed_B) = Some \<lparr>t_id = 1, t_addr = ''0x0b'', t_delay = 10000\<rparr> \<and>
   pending (snd (handle demo_env (TimerFires 1) rearmed_B)) = pending rearmed_B \<and>
   queue (snd (handle demo_env (TimerFires 1) rearmed_B)) = queue rearmed_B"
  using pending_no_duplicates [of demo_env rearmed_B "''0x0b''" rearmed_B demo_env 1
      "\<lparr>t_id = 1, t_addr = ''0x0b'', t_delay = 10000\<rparr>"]
    rearmed_B_reachable rearmed_B_pending rearmed_B_live
  by simp




text \<open>
  C3 (as amended). The callback of a ping invokes \<open>queueCallback\<close> exactly once when the
  publish call returns, after a successful ping as after a failed one, and the address
  has then left \<open>pending\<close>. When the publish call throws, the fault leaves the callback
  at that statement: \<open>queueCallback\<close> is not invoked, and \<open>pending\<close>, the queue and the
  live timers stay as they were.
\<close>

theorem queueCallback_unless_fault:
  "count_list (effects (snd (pingCallback c a e s))) QueueCallback =
     count_list (effects s) QueueCallback
     + (if mqtt_publish c (expected_message c a (e = None)) = None then 1 else 0) \<and>
   (mqtt_publish c (expected_message c a (e = None)) = None \<longrightarrow>
      fst (pingCallback c a e s) = Returned \<and>
      pending (snd (pingCallback c a e s)) = remove1 a (pending s)) \<and>
   (mqtt_publish c (expected_message c a (e = None)) = None \<and> distinct (pending s) \<longrightarrow>
      a \<notin> set (pending (snd (pingCallback c a e s)))) \<and>
   (mqtt_publish c (expected_message c a (e = None)) = Some f \<longrightarrow>
      fst (pingCallback c a e s) = Threw f \<and>
      pending (snd (pingCallback c a e s)) = pending s \<and>
      queue (snd (pingCallback c a e s)) = queue s \<and>
      live (snd (pingCallback c a e s)) = live s)"
  by (simp add: pingCallback_eq queueCallback_fields queueCallback_count setTimer_fields
      setTimer_effects completion_trace_count split: option.splits)

theorem queueCallback_unless_fault_witness:
  "mqtt_publish demo_env (expected_message demo_env ''0x0b'' (None = None)) = None \<and>
   distinct (pending probing_B) \<and>
   fst (pingCallback demo_env ''0x0b'' None probing_B) = Returned \<and>
   count_list (effects (snd (pingCallback demo_env ''0x0b'' None probing_B))) QueueCallback =
     count_list (effects probing_B) QueueCallback + 1 \<and>
   ''0x0b'' \<notin> set (pending (snd (pingCallback demo_env ''0x0b'' None probing_B))) \<and>
   mqtt_publish faulty_env (expected_message faulty_env ''0x0b'' (Some ''timeout'' = None))
     = Some BusError \<and>
   fst (pingCallback faulty_env ''0x0b'' (Some ''timeout'') probing_B) = Threw BusError \<and>
   pending (snd (pingCallback faulty_env ''0x0b'' (Some ''timeout'') probing_B)) = pending probing_B"
  using queueCallback_unless_fault [of demo_env "''0x0b''" None probing_B BusError]
    queueCallback_unless_fault [of faulty_env "''0x0b''" "Some ''timeout''" probing_B BusError]
    probing_B_pending
  by (simp add: demo_env_publish faulty_env_publish)

text \<open>
  C3 (as stated) fails: with a bus whose publish throws, the callback of B's ping ends
  without invoking \<open>queueCallback\<close>; B stays in \<open>pending\<close>, its job stays in flight, and
  B has no live timer.
\<close>

theorem fault_skips_queueCallback_counterexample:
  "inflight (queue probing_B) = Some ''0x0b'' \<and>
   fst (pingCallback faulty_env ''0x0b'' None probing_B) = Threw BusError \<and>
   QueueCallback \<notin> set (effects (snd (pingCallback faulty_env ''0x0b'' None probing_B))) \<and>
   ''0x0b'' \<in> set (pending (snd (pingCallback faulty_env ''0x0b'' None probing_B))) \<and>
   inflight (queue (snd (pingCallback faulty_env ''0x0b'' None probing_B))) = Some ''0x0b'' \<and>
   live (snd (pingCallback faulty_env ''0x0b'' None probing_B)) = []"
  by code_simp

text \<open>
  C4 (as amended). isPingable always returns a boolean, and it is true exactly when
  the type is 'Router' and the power source is truthy and not 'Battery', or the
  manufacturer id is 4448 and the model id is 'E11-G13'. With an absent power source
  (undefined, null or the empty string) the result is the override test alone: false
  for every device off the override, routers included. A router whose power source is
  the string 'Unknown' is pingable.
\<close>

theorem isPingable_iff:
  "isPingable d =
     JBool ((type d = JStr ''Router'' \<and> truthy (powerSource d) \<and> powerSource d \<noteq> JStr ''Battery'')
            \<or> (manufId d = JNum 4448 \<and> modelId d = JStr ''E11-G13''))
   \<and> isPingable (d\<lparr>powerSource := JUndefined\<rparr>)
       = JBool (manufId d = JNum 4448 \<and> modelId d = JStr ''E11-G13'')
   \<and> isPingable (d\<lparr>powerSource := JNull\<rparr>)
       = JBool (manufId d = JNum 4448 \<and> modelId d = JStr ''E11-G13'')
   \<and> isPingable (d\<lparr>powerSource := JStr []\<rparr>)
       = JBool (manufId d = JNum 4448 \<and> modelId d = JStr ''E11-G13'')
   \<and> isPingable (d\<lparr>type := JStr ''Router'', powerSource := JStr ''Unknown''\<rparr>) = JBool True"
  by (simp add: isPingable_def js_or_def js_and_def strict_eq_def strict_neq_def)

text \<open>
  C4 (as stated) fails: a router off the override that reports the power source
  'Unknown' is pingable, since that string is truthy and is not 'Battery'; and a router
  on the override is pingable with no power source at all.
\<close>

theorem isPingable_unknown_power_counterexample:
  "type unknown_router = JStr ''Router'' \<and> powerSource unknown_router = JStr ''Unknown''
   \<and> manufId unknown_router \<noteq> JNum 4448
   \<and> isPingable unknown_router = JBool True
   \<and> type override_router = JStr ''Router'' \<and> powerSource override_router = JUndefined
   \<and> isPingable override_router = JBool True"
  by (simp add: isPingable_def js_or_def js_and_def strict_eq_def strict_neq_def
      unknown_router_def override_router_def)




text \<open>
  C6 (as amended). \<open>stop\<close> halts the queue first: the call of \<open>queue.stop()\<close> is its
  first effect. When the publish calls return, the effects that follow are one
  'offline' message for each device of \<open>zigbee.getDevices()\<close> whose type is not
  'Coordinator', whatever the state was, and none for any other. When the publish call
  of a device throws, \<open>stop\<close> ends there and the devices after it are not published.
  In every case the queue is halted when \<open>stop\<close> returns and, whatever events follow, it
  stays halted and no ping is sent. \<open>stop\<close> clears no timer: a timer that fires later
  still adds its address to \<open>pending\<close> and pushes a job, which the halted queue does
  not run.
\<close>

theorem stop_shutdown:
  "take (Suc (length (effects s))) (effects (snd (stop c s))) = effects s @ [QueueStop] \<and>
   (bus_returns c \<longrightarrow>
      fst (stop c s) = Returned \<and>
      observable (effects (snd (stop c s))) =
        observable (effects s) @ QueueStop #
        map (\<lambda>d. BusPublish \<lparr>topic = toString (resolved_name c (ieeeAddr d)) @ ''/availability'',
                              payload = ''offline'', retain = True, qos = 0\<rparr>)
          (filter (\<lambda>d. type d \<noteq> JStr ''Coordinator'') (zigbee_getDevices c))) \<and>
   (filter (\<lambda>d. type d \<noteq> JStr ''Coordinator'') (zigbee_getDevices c) = pre @ d # post \<and>
    list_all (\<lambda>d. mqtt_publish c (expected_message c (ieeeAddr d) False) = None) pre \<and>
    mqtt_publish c (expected_message c (ieeeAddr d) False) = Some f \<longrightarrow>
      fst (stop c s) = Threw f \<and>
      observable (effects (snd (stop c s))) =
        observable (effects s) @ QueueStop #
        map (\<lambda>d. BusPublish \<lparr>topic = toString (resolved_name c (ieeeAddr d)) @ ''/availability'',
                              payload = ''offline'', retain = True, qos = 0\<rparr>) (pre @ [d])) \<and>
   halted (queue (snd (stop c s))) \<and>
   pings (effects (snd (stop c s))) = pings (effects s) \<and>
   halted (queue (run evs (snd (stop c s)))) \<and>
   pings (effects (run evs (snd (stop c s)))) = pings (effects s) \<and>
   live (snd (stop c s)) = live s \<and>
   timers (snd (stop c s)) = timers s \<and>
   (halted (queue s') \<and> a \<notin> set (pending s') \<longrightarrow>
      jobs (queue (handleInterval c' a s')) = jobs (queue s') @ [a] \<and>
      pending (handleInterval c' a s') = pending s' @ [a] \<and>
      pings (effects (handleInterval c' a s')) = pings (effects s'))"
proof -
  have q: "observable (effects (queue_stop s)) = observable (effects s) @ [QueueStop]"
    by (simp add: queue_stop_def emit_def observable_def)
  have 1: "bus_returns c \<longrightarrow>
      fst (stop c s) = Returned \<and>
      observable (effects (snd (stop c s))) =
        observable (effects s) @ QueueStop #
        map (\<lambda>d. BusPublish \<lparr>topic = toString (resolved_name c (ieeeAddr d)) @ ''/availability'',
                              payload = ''offline'', retain = True, qos = 0\<rparr>)
          (filter (\<lambda>d. type d \<noteq> JStr ''Coordinator'') (zigbee_getDevices c))"
  proof
    assume b: "bus_returns c"
    have "fst (stop c s) = Returned \<and>
          observable (effects (snd (stop c s))) =
            observable (effects s) @ QueueStop #
            map (\<lambda>d. BusPublish (expected_message c (ieeeAddr d) False)) (non_coordinators c)"
      using b q
      by (simp add: stop_def non_coordinators_filter forEach_publish_returns observable_append
          publish_all_observable)
    then show "fst (stop c s) = Returned \<and>
      observable (effects (snd (stop c s))) =
        observable (effects s) @ QueueStop #
        map (\<lambda>d. BusPublish \<lparr>topic = toString (resolved_name c (ieeeAddr d)) @ ''/availability'',
                              payload = ''offline'', retain = True, qos = 0\<rparr>)
          (filter (\<lambda>d. type d \<noteq> JStr ''Coordinator'') (zigbee_getDevices c))"
      by (simp add: non_coordinators_def expected_message_offline)
  qed
  have 2: "filter (\<lambda>d. type d \<noteq> JStr ''Coordinator'') (zigbee_getDevices c) = pre @ d # post \<and>
    list_all (\<lambda>d. mqtt_publish c (expected_message c (ieeeAddr d) False) = None) pre \<and>
    mqtt_publish c (expected_message c (ieeeAddr d) False) = Some f \<longrightarrow>
      fst (stop c s) = Threw f \<and>
      observable (effects (snd (stop c s))) =
        observable (effects s) @ QueueStop #
        map (\<lambda>d. BusPublish \<lparr>topic = toString (resolved_name c (ieeeAddr d)) @ ''/availability'',
                              payload = ''offline'', retain = True, qos = 0\<rparr>) (pre @ [d])"
  proof
    assume h: "filter (\<lambda>d. type d \<noteq> JStr ''Coordinator'') (zigbee_getDevices c) = pre @ d # post \<and>
      list_all (\<lambda>d. mqtt_publish c (expected_message c (ieeeAddr d) False) = None) pre \<and>
      mqtt_publish c (expected_message c (ieeeAddr d) False) = Some f"
    then have n: "non_coordinators c = pre @ d # post" by (simp add: non_coordinators_def)
    from h have pr: "list_all (\<lambda>d. mqtt_publish c (expected_message c (ieeeAddr d) False) = None) pre"
      and th: "mqtt_publish c (expected_message c (ieeeAddr d) False) = Some f" by simp_all
    define X where "X = concat (map (\<lambda>d. publish_trace c (ieeeAddr d)
                                    @ [BusPublish (expected_message c (ieeeAddr d) False)])
                           (pre @ [d]))"
    have eq: "stop c s = (Threw f, (queue_stop s)\<lparr>effects := effects (queue_stop s) @ X\<rparr>)"
      unfolding X_def by (rule stop_throws [OF n pr th])
    have o: "observable X = map (\<lambda>d. BusPublish (expected_message c (ieeeAddr d) False)) (pre @ [d])"
      unfolding X_def by (rule publish_all_observable)
    have "fst (stop c s) = Threw f \<and>
          observable (effects (snd (stop c s))) =
            observable (effects s) @ QueueStop #
            map (\<lambda>d. BusPublish (expected_message c (ieeeAddr d) False)) (pre @ [d])"
      using q o by (simp add: eq observable_append)
    then show "fst (stop c s) = Threw f \<and>
      observable (effects (snd (stop c s))) =
        observable (effects s) @ QueueStop #
        map (\<lambda>d. BusPublish \<lparr>topic = toString (resolved_name c (ieeeAddr d)) @ ''/availability'',
                              payload = ''offline'', retain = True, qos = 0\<rparr>) (pre @ [d])"
      by (simp add: expected_message_offline)
  qed
  have 3: "halted (queue (run evs (snd (stop c s)))) \<and>
           pings (effects (run evs (snd (stop c s)))) = pings (effects s)"
    using halted_run [of "snd (stop c s)" evs] halted_stop [of c s] by simp
  have 4: "halted (queue s') \<and> a \<notin> set (pending s') \<longrightarrow>
      jobs (queue (handleInterval c' a s')) = jobs (queue s') @ [a] \<and>
      pending (handleInterval c' a s') = pending s' @ [a] \<and>
      pings (effects (handleInterval c' a s')) = pings (effects s')"
    using push_when_halted [of s' a c'] by blast
  note h = halted_stop [of c s]
  note fr = stop_frame [of c s]
  show ?thesis
    by (intro conjI 1 2 4 conjunct1 [OF 3] conjunct2 [OF 3] conjunct1 [OF h]
        conjunct1 [OF conjunct2 [OF h]] conjunct2 [OF conjunct2 [OF h]]
        conjunct1 [OF fr] conjunct2 [OF fr])
qed

theorem stop_shutdown_witness:
  "bus_returns demo_env \<and>
   fst (stop demo_env probing_B) = Returned \<and>
   observable (effects (snd (stop demo_env probing_B))) =
     observable (effects probing_B) @
     [QueueStop,
      BusPublish \<lparr>topic = ''lamp/availability'', payload = ''offline'', retain = True, qos = 0\<rparr>,
      BusPublish \<lparr>topic = ''0x0c/availability'', payload = ''offline'', retain = True, qos = 0\<rparr>] \<and>
   halted (queue (snd (stop demo_env probing_B))) \<and>
   pings (effects (run after_stop (snd (stop demo_env probing_B)))) = pings (effects probing_B) \<and>
   mqtt_publish faulty_env (expected_message faulty_env (ieeeAddr dev_B) False) = Some BusError \<and>
   fst (stop faulty_env probing_B) = Threw BusError \<and>
   observable (effects (snd (stop faulty_env probing_B))) =
     observable (effects probing_B) @
     [QueueStop,
      BusPublish \<lparr>topic = ''lamp/availability'', payload = ''offline'', retain = True, qos = 0\<rparr>] \<and>
   halted (queue (snd (stop demo_env rearmed_B))) \<and>
   ''0x0c'' \<notin> set (pending (snd (stop demo_env rearmed_B))) \<and>
   jobs (queue (handleInterval demo_env ''0x0c'' (snd (stop demo_env rearmed_B)))) =
     jobs (queue (snd (stop demo_env rearmed_B))) @ [''0x0c'']"
proof -
  have d: "filter (\<lambda>d. type d \<noteq> JStr ''Coordinator'') (zigbee_getDevices demo_env) = [dev_B, dev_C]"
    by (simp add: demo_env_def dev_A_def dev_B_def dev_C_def)
  have df: "filter (\<lambda>d. type d \<noteq> JStr ''Coordinator'') (zigbee_getDevices faulty_env)
              = [] @ dev_B # [dev_C]"
    by (simp add: faulty_env_def demo_env_def dev_A_def dev_B_def dev_C_def)
  have n: "resolved_name demo_env ''0x0b'' = JStr ''lamp''"
    "resolved_name demo_env ''0x0c'' = JStr ''0x0c''"
    "resolved_name faulty_env ''0x0b'' = JStr ''lamp''"
    by (simp_all add: faulty_env_def demo_env_def resolved_name_def)
  have a: "ieeeAddr dev_B = ''0x0b''" "ieeeAddr dev_C = ''0x0c''"
    by (simp_all add: dev_B_def dev_C_def)
  have th: "mqtt_publish faulty_env (expected_message faulty_env (ieeeAddr dev_B) False)
              = Some BusError"
    by (rule faulty_env_publish)
  have np: "''0x0c'' \<notin> set (pending (snd (stop demo_env rearmed_B)))"
    by code_simp
  note t1 = stop_shutdown [where c = demo_env and s = probing_B and evs = after_stop
      and pre = "[]" and d = dev_B and post = "[dev_C]" and f = BusError
      and s' = "snd (stop demo_env rearmed_B)" and a = "''0x0c''" and c' = demo_env]
  note t2 = stop_shutdown [where c = faulty_env and s = probing_B and evs = after_stop
      and pre = "[]" and d = dev_B and post = "[dev_C]" and f = BusError
      and s' = "snd (stop demo_env rearmed_B)" and a = "''0x0c''" and c' = demo_env]
  note t3 = stop_shutdown [where c = demo_env and s = rearmed_B and evs = "[]"
      and pre = "[]" and d = dev_B and post = "[dev_C]" and f = BusError
      and s' = "snd (stop demo_env rearmed_B)" and a = "''0x0c''" and c' = demo_env]
  from t3 have h: "halted (queue (snd (stop demo_env rearmed_B)))" by simp
  from t1 h np have j: "jobs (queue (handleInterval demo_env ''0x0c'' (snd (stop demo_env rearmed_B)))) =
     jobs (queue (snd (stop demo_env rearmed_B))) @ [''0x0c'']" by simp
  from t1 demo_env_bus_returns have 1: "fst (stop demo_env probing_B) = Returned"
    and 2: "observable (effects (snd (stop demo_env probing_B))) =
     observable (effects probing_B) @
     [QueueStop,
      BusPublish \<lparr>topic = ''lamp/availability'', payload = ''offline'', retain = True, qos = 0\<rparr>,
      BusPublish \<lparr>topic = ''0x0c/availability'', payload = ''offline'', retain = True, qos = 0\<rparr>]"
    and 3: "halted (queue (snd (stop demo_env probing_B)))"
    and 4: "pings (effects (run after_stop (snd (stop demo_env probing_B)))) = pings (effects probing_B)"
    by (simp_all add: d n a)
  from t2 df th have 5: "fst (stop faulty_env probing_B) = Threw BusError"
    and 6: "observable (effects (snd (stop faulty_env probing_B))) =
     observable (effects probing_B) @
     [QueueStop,
      BusPublish \<lparr>topic = ''lamp/availability'', payload = ''offline'', retain = True, qos = 0\<rparr>]"
    by (simp_all add: n a)
  from demo_env_bus_returns 1 2 3 4 th 5 6 h np j show ?thesis by simp
qed

text \<open>
  C6 (as stated) fails: with a bus whose publish throws, \<open>stop\<close> ends at the first
  device and C, which is not the coordinator, is not published offline. And after a
  \<open>stop\<close> whose publishes return, B's timer is still live; when it fires, a job for B is
  pushed to the halted queue.
\<close>

theorem stop_aborts_on_throw_counterexample:
  "type dev_C \<noteq> JStr ''Coordinator'' \<and> dev_C \<in> set (zigbee_getDevices faulty_env) \<and>
   fst (stop faulty_env started) = Threw BusError \<and>
   publishes (effects (snd (stop faulty_env started))) =
     publishes (effects started) @
     [\<lparr>topic = ''lamp/availability'', payload = ''offline'', retain = True, qos = 0\<rparr>] \<and>
   jobs (queue (snd (stop demo_env started))) = [] \<and>
   jobs (queue (snd (handle demo_env (TimerFires 0) (snd (stop demo_env started))))) = [''0x0b'']"
proof -
  have 1: "type dev_C \<noteq> JStr ''Coordinator'' \<and> dev_C \<in> set (zigbee_getDevices faulty_env)"
    by (simp add: faulty_env_def demo_env_def dev_C_def)
  have th: "mqtt_publish faulty_env (expected_message faulty_env (ieeeAddr dev_B) False)
              = Some BusError"
    by (rule faulty_env_publish)
  have eq: "stop faulty_env started =
          (Threw BusError,
           (queue_stop started)\<lparr>effects := effects (queue_stop started) @
              concat (map (\<lambda>d. publish_trace faulty_env (ieeeAddr d)
                            @ [BusPublish (expected_message faulty_env (ieeeAddr d) False)])
                        ([] @ [dev_B]))\<rparr>)"
    by (rule stop_throws [OF faulty_non_coordinators _ th]) simp
  have 2: "fst (stop faulty_env started) = Threw BusError" by (simp add: eq)
  have 3: "publishes (effects (snd (stop faulty_env started))) =
     publishes (effects started) @
     [\<lparr>topic = ''lamp/availability'', payload = ''offline'', retain = True, qos = 0\<rparr>]"
    by (simp add: eq queue_stop_def emit_def publishes_append publish_trace_publishes
        faulty_message_B)
  let ?s1 = "snd (stop demo_env started)"
  have 4: "jobs (queue ?s1) = []"
    using stop_frame_queue [of demo_env started] by (simp add: started_fields)
  have l: "live ?s1 = [\<lparr>t_id = 0, t_addr = ''0x0b'', t_delay = 10000\<rparr>]"
    using stop_frame [of demo_env started] by (simp add: started_fields)
  have h: "halted (queue (?s1\<lparr>live := []\<rparr>))"
    using halted_stop [of demo_env started] by simp
  have p: "''0x0b'' \<notin> set (pending (?s1\<lparr>live := []\<rparr>))"
    using stop_frame_queue [of demo_env started] by (simp add: started_fields)
  have 5: "jobs (queue (snd (handle demo_env (TimerFires 0) ?s1))) = [''0x0b'']"
    using push_when_halted [OF h p, of demo_env] 4 by (simp add: l)
  from 1 2 3 4 5 show ?thesis by simp
qed

text \<open>
  C7. A message from a device calls \<open>setTimeout\<close> for its address exactly when the
  registry knows the address and \<open>isPingable\<close> accepts the device it returns; the live
  timers are then those of before without the one stored for the address, plus the new
  one. Otherwise the live timers are unchanged. In every case nothing is published, no
  ping is sent, and the queue and \<open>pending\<close> are unchanged.
\<close>

theorem traffic_rearms_eligible:
  "onZigbeeMessage c None s = (Returned, s) \<and>
   armed (effects (snd (onZigbeeMessage c (Some d) s))) =
     armed (effects s) @
     (case zigbee_getDevice c (ieeeAddr d) of
        None \<Rightarrow> []
      | Some r \<Rightarrow> if truthy (isPingable r) then [ieeeAddr d] else []) \<and>
   live (snd (onZigbeeMessage c (Some d) s)) =
     (case zigbee_getDevice c (ieeeAddr d) of
        None \<Rightarrow> live s
      | Some r \<Rightarrow>
          if truthy (isPingable r) then
            filter (\<lambda>t. timers s (ieeeAddr d) \<noteq> Some (t_id t)) (live s)
            @ [\<lparr>t_id = next_id s, t_addr = ieeeAddr d,
                 t_delay = utils_secondsToMilliseconds c (availability_timeout s)\<rparr>]
          else live s) \<and>
   publishes (effects (snd (onZigbeeMessage c dev s))) = publishes (effects s) \<and>
   pings (effects (snd (onZigbeeMessage c dev s))) = pings (effects s) \<and>
   queue (snd (onZigbeeMessage c dev s)) = queue s \<and>
   pending (snd (onZigbeeMessage c dev s)) = pending s"
  by (simp add: onZigbeeMessage_def setTimer_armed setTimer_live setTimer_publishes
      setTimer_pings setTimer_fields split: option.splits)

theorem traffic_rearms_eligible_witness:
  "armed (effects (snd (onZigbeeMessage demo_env (Some dev_B) probing_B)))
     = armed (effects probing_B) @ [''0x0b''] \<and>
   armed (effects (snd (onZigbeeMessage demo_env (Some dev_C) probing_B)))
     = armed (effects probing_B) \<and>
   live (snd (onZigbeeMessage demo_env (Some dev_C) probing_B)) = live probing_B \<and>
   queue (snd (onZigbeeMessage demo_env (Some dev_B) probing_B)) = queue probing_B \<and>
   publishes (effects (snd (onZigbeeMessage demo_env (Some dev_B) probing_B)))
     = publishes (effects probing_B)"
proof -
  have g: "zigbee_getDevice demo_env ''0x0b'' = Some dev_B"
    "zigbee_getDevice demo_env ''0x0c'' = Some dev_C"
    by (simp_all add: demo_env_def dev_A_def dev_B_def dev_C_def)
  have p: "truthy (isPingable dev_B)" "\<not> truthy (isPingable dev_C)"
    by (simp_all add: isPingable_def js_or_def js_and_def strict_eq_def strict_neq_def
        dev_B_def dev_C_def)
  have a: "ieeeAddr dev_B = ''0x0b''" "ieeeAddr dev_C = ''0x0c''"
    by (simp_all add: dev_B_def dev_C_def)
  show ?thesis
    using traffic_rearms_eligible [of demo_env probing_B dev_B "Some dev_B"]
      traffic_rearms_eligible [of demo_env probing_B dev_C "Some dev_C"]
    by (simp add: g p a)
qed

text \<open>
  C8 (as amended). \<open>publishAvailability\<close> makes one publish call: a retained message of
  qos 0 with payload 'online' or 'offline', to the topic made of the name followed by
  '/availability'. The name is the \<open>friendly_name\<close> of the settings entry of the
  address, as the template literal prints it, and the address itself when settings has
  no entry for it. It throws only if the publish call throws; a missing entry raises
  nothing.
\<close>

theorem publish_message:
  "publishes (effects (snd (publishAvailability c a av s))) =
     publishes (effects s) @
     [\<lparr>topic = toString (case settings_getDevice c a of
                           Some ds \<Rightarrow> friendly_name ds | None \<Rightarrow> JStr a)
                @ ''/availability'',
       payload = (if av then ''online'' else ''offline''), retain = True, qos = 0\<rparr>] \<and>
   fst (publishAvailability c a av s) =
     (case mqtt_publish c
             \<lparr>topic = toString (case settings_getDevice c a of
                                   Some ds \<Rightarrow> friendly_name ds | None \<Rightarrow> JStr a)
                        @ ''/availability'',
               payload = (if av then ''online'' else ''offline''), retain = True, qos = 0\<rparr> of
        None \<Rightarrow> Returned
      | Some f \<Rightarrow> Threw f) \<and>
   publishes (effects (snd (publishAvailability (c\<lparr>settings_getDevice := (\<lambda>x. None)\<rparr>) a av s))) =
     publishes (effects s) @
     [\<lparr>topic = a @ ''/availability'', payload = (if av then ''online'' else ''offline''),
       retain = True, qos = 0\<rparr>] \<and>
   publishes (effects (snd (publishAvailability
        (c\<lparr>settings_getDevice := (\<lambda>x. Some \<lparr>friendly_name = JStr n\<rparr>)\<rparr>) a av s))) =
     publishes (effects s) @
     [\<lparr>topic = n @ ''/availability'', payload = (if av then ''online'' else ''offline''),
       retain = True, qos = 0\<rparr>]"
  by (simp add: publishAvailability_eq publishes_append publish_trace_publishes
      expected_message_def resolved_name_def)

theorem publish_message_witness:
  "publishes (effects (snd (publishAvailability demo_env ''0x0b'' False probing_B))) =
     publishes (effects probing_B) @
     [\<lparr>topic = ''lamp/availability'', payload = ''offline'', retain = True, qos = 0\<rparr>] \<and>
   publishes (effects (snd (publishAvailability demo_env ''0x0c'' True probing_B))) =
     publishes (effects probing_B) @
     [\<lparr>topic = ''0x0c/availability'', payload = ''online'', retain = True, qos = 0\<rparr>] \<and>
   fst (publishAvailability demo_env ''0x0c'' True probing_B) = Returned"
proof -
  have n: "settings_getDevice demo_env ''0x0b'' = Some \<lparr>friendly_name = JStr ''lamp''\<rparr>"
    "settings_getDevice demo_env ''0x0c'' = None"
    by (simp_all add: demo_env_def)
  show ?thesis
    using publish_message [of demo_env "''0x0b''" False probing_B]
      publish_message [of demo_env "''0x0c''" True probing_B]
    by (simp add: n demo_env_publish)
qed

text \<open>
  C8 (as stated) fails: for an entry that has no \<open>friendly_name\<close>, and for one whose
  friendly name is empty, no friendly name is configured, yet the topic is not made of
  the address: it is 'undefined/availability' and '/availability'.
\<close>

theorem no_fallback_for_unnamed_entry_counterexample:
  "settings_getDevice unnamed_env ''0x0c'' = Some \<lparr>friendly_name = JUndefined\<rparr> \<and>
   publishes (effects (snd (publishAvailability unnamed_env ''0x0c'' True (constructor demo_env)))) =
     [\<lparr>topic = ''undefined/availability'', payload = ''online'', retain = True, qos = 0\<rparr>] \<and>
   settings_getDevice empty_name_env ''0x0c'' = Some \<lparr>friendly_name = JStr []\<rparr> \<and>
   publishes (effects (snd (publishAvailability empty_name_env ''0x0c'' True (constructor demo_env)))) =
     [\<lparr>topic = ''/availability'', payload = ''online'', retain = True, qos = 0\<rparr>]"
  by (simp add: publishAvailability_eq publishes_append publish_trace_publishes
      expected_message_def resolved_name_def unnamed_env_def empty_name_env_def constructor_def)

text \<open>
  C9. In every reachable state an address has at most one live timer, every live timer
  runs for the quiet-period converted from the setting read by the constructor, and
  \<open>setTimer\<close> clears the handle stored for the address before it sets the new timeout,
  after which the new timer is the only live one of the address.
\<close>

theorem one_timer_per_address:
  assumes "reachable c0 s"
  shows "length (filter (\<lambda>t. t_addr t = a) (live s)) \<le> 1 \<and>
     list_all (\<lambda>t. t_delay t = utils_secondsToMilliseconds c0 (settings_availability_timeout c0))
       (live s) \<and>
     availability_timeout s = settings_availability_timeout c0 \<and>
     availability_timeout (constructor c0) = settings_availability_timeout c0 \<and>
     (utils_secondsToMilliseconds c = utils_secondsToMilliseconds c0 \<longrightarrow>
        effects (setTimer c a s) =
          effects s @ (case timers s a of Some h \<Rightarrow> [ClearTimeout h] | None \<Rightarrow> [])
          @ [SetTimeout (next_id s) a
               (utils_secondsToMilliseconds c0 (settings_availability_timeout c0))] \<and>
        filter (\<lambda>t. t_addr t = a) (live (setTimer c a s)) =
          [\<lparr>t_id = next_id s, t_addr = a,
            t_delay = utils_secondsToMilliseconds c0 (settings_availability_timeout c0)\<rparr>])"
proof -
  from assms have ok: "timers_ok c0 s"
    using reachable_inv [of c0 s] by (simp add: handler_inv_def)
  have 1: "length (filter (\<lambda>t. t_addr t = a) (live s)) \<le> 1"
    using timers_ok_one_per_address [OF ok, of a] by simp
  have 2: "list_all (\<lambda>t. t_delay t = utils_secondsToMilliseconds c0
              (settings_availability_timeout c0)) (live s)"
    using ok by (simp add: timers_ok_def list_all_iff)
  have 3: "availability_timeout s = settings_availability_timeout c0"
    using ok by (simp add: timers_ok_def)
  have 4: "availability_timeout (constructor c0) = settings_availability_timeout c0"
    by (simp add: constructor_def)
  show ?thesis
    using 1 2 3 4 setTimer_rearms [OF ok, of a c]
    by (simp add: setTimer_effects)
qed

theorem one_timer_per_address_witness:
  "reachable demo_env rearmed_B \<and>
   length (filter (\<lambda>t. t_addr t = ''0x0b'') (live rearmed_B)) \<le> 1 \<and>
   utils_secondsToMilliseconds demo_env = utils_secondsToMilliseconds demo_env \<and>
   filter (\<lambda>t. t_addr t = ''0x0b'') (live (setTimer demo_env ''0x0b'' rearmed_B)) =
     [\<lparr>t_id = 2, t_addr = ''0x0b'', t_delay = 10000\<rparr>]"
  using one_timer_per_address [OF rearmed_B_reachable, of "''0x0b''" demo_env]
    rearmed_B_reachable rearmed_B_next_id
  by (simp add: demo_env_def)

text \<open>
  C10. \<open>publishAvailability\<close> changes nothing but the effects: it appends debug lines
  and then one publish. The message does not depend on what the 'big_lamp' branch reads
  (\<open>state.get\<close>, \<open>shepherd.find\<close>); for a device named 'big_lamp' it is the usual
  message on 'big_lamp/availability'.
\<close>

theorem publish_frame:
  "same_core s (snd (publishAvailability c a av s)) \<and>
   effects (snd (publishAvailability c a av s)) =
     effects s @ publish_trace c a @ [BusPublish (expected_message c a av)] \<and>
   list_all is_debug (publish_trace c a) \<and>
   observable (effects (snd (publishAvailability c a av s))) =
     observable (effects s) @ [BusPublish (expected_message c a av)] \<and>
   publishes (effects (snd (publishAvailability c a av s))) =
     publishes (effects s) @ [expected_message c a av] \<and>
   expected_message (c\<lparr>shepherd_find := f, state_get := g\<rparr>) a av = expected_message c a av \<and>
   expected_message (c\<lparr>settings_getDevice := (\<lambda>x. Some \<lparr>friendly_name = JStr ''big_lamp''\<rparr>)\<rparr>) a av =
     \<lparr>topic = ''big_lamp/availability'', payload = (if av then ''online'' else ''offline''),
      retain = True, qos = 0\<rparr>"
proof -
  have d: "list_all is_debug (publish_trace c a)"
    by (simp add: publish_trace_def split: option.splits)
  have o: "observable (effects s @ publish_trace c a @ [BusPublish (expected_message c a av)])
             = observable (effects s) @ [BusPublish (expected_message c a av)]"
    using publish_trace_debug [of c a] by (simp add: observable_def)
  show ?thesis
    using d o
    by (simp add: publishAvailability_eq same_core_def publishes_append publish_trace_publishes
        expected_message_def resolved_name_def)
qed

theorem publish_frame_witness:
  "same_core probing_B (snd (publishAvailability big_lamp_env ''0x0b'' True probing_B)) \<and>
   effects (snd (publishAvailability big_lamp_env ''0x0b'' True probing_B)) =
     effects probing_B @
     [Debug (DeviceInformation ''0x0b'' (Some \<lparr>friendly_name = JStr ''big_lamp''\<rparr>)),
      Debug (FirstInfo ''0x0b'' JUndefined),
      Debug (SecondInfo ''0x0b'' (JStr ''online'')),
      BusPublish \<lparr>topic = ''big_lamp/availability'', payload = ''online'', retain = True, qos = 0\<rparr>]"
proof -
  have t: "publish_trace big_lamp_env ''0x0b'' =
     [Debug (DeviceInformation ''0x0b'' (Some \<lparr>friendly_name = JStr ''big_lamp''\<rparr>)),
      Debug (FirstInfo ''0x0b'' JUndefined),
      Debug (SecondInfo ''0x0b'' (JStr ''online''))]"
    by (simp add: publish_trace_def big_lamp_env_def demo_env_def resolved_name_def)
  have m: "expected_message big_lamp_env ''0x0b'' True =
     \<lparr>topic = ''big_lamp/availability'', payload = ''online'', retain = True, qos = 0\<rparr>"
    by (simp add: expected_message_def big_lamp_env_def demo_env_def resolved_name_def)
  show ?thesis
    using publish_frame [of probing_B big_lamp_env "''0x0b''" True]
    by (simp add: t m)
qed

end
